theory Spec2Isabelle
  imports Main "HOL-Library.Word"
begin

unbundle bit_operations_syntax

section \<open>Single-precision floats as bit patterns\<close>

text \<open>
  The firmware keeps every measurement in a C \<open>float\<close> (IEEE-754 binary32; the ESP8266
  has no FPU and the compiler's soft-float routines compute in single precision, round to
  nearest, ties to even). A float is modelled by its 32-bit pattern. The exact value of a
  finite float is an integer multiple of \<open>2 ^ -149\<close>; \<open>f32_scaled_mag\<close> is that
  multiple, so all arithmetic below is integer arithmetic and can be evaluated.
\<close>

type_synonym u8 = "8 word"
type_synonym u16 = "16 word"
type_synonym u32 = "32 word"
type_synonym f32 = "32 word"

text \<open>Bits 0..30: exponent and fraction; bit 31: sign.\<close>

definition f32_mag :: "f32 \<Rightarrow> int" where
  "f32_mag x = uint x mod 2 ^ 31"

definition f32_neg :: "f32 \<Rightarrow> bool" where
  "f32_neg x = (2 ^ 31 \<le> uint x)"

text \<open>\<open>2139095040 = 0x7F800000\<close>: exponent all ones, fraction zero (infinity).\<close>

definition f32_isnan :: "f32 \<Rightarrow> bool" where
  "f32_isnan x = (2139095040 < f32_mag x)"

definition f32_isinf :: "f32 \<Rightarrow> bool" where
  "f32_isinf x = (f32_mag x = 2139095040)"

definition f32_iszero :: "f32 \<Rightarrow> bool" where
  "f32_iszero x = (f32_mag x = 0)"

definition f32_scaled_mag :: "f32 \<Rightarrow> int" where
  "f32_scaled_mag x =
     (let e = f32_mag x div 2 ^ 23; f = f32_mag x mod 2 ^ 23
      in if e = 0 then f else (2 ^ 23 + f) * 2 ^ nat (e - 1))"

definition f32_scaled :: "f32 \<Rightarrow> int" where
  "f32_scaled x = (if f32_neg x then - f32_scaled_mag x else f32_scaled_mag x)"

text \<open>
  Comparison: false as soon as one side is NaN; otherwise the order of the sign-magnitude
  bit patterns, which is the order of the values (\<open>-0\<close> and \<open>+0\<close> compare equal).
\<close>

definition f32_key :: "f32 \<Rightarrow> int" where
  "f32_key x = (if f32_neg x then - f32_mag x else f32_mag x)"

definition f32_lt :: "f32 \<Rightarrow> f32 \<Rightarrow> bool" where
  "f32_lt a b = (\<not> f32_isnan a \<and> \<not> f32_isnan b \<and> f32_key a < f32_key b)"

definition f32_le :: "f32 \<Rightarrow> f32 \<Rightarrow> bool" where
  "f32_le a b = (\<not> f32_isnan a \<and> \<not> f32_isnan b \<and> f32_key a \<le> f32_key b)"

text \<open>Number of binary digits of a positive integer.\<close>

function bitlen :: "int \<Rightarrow> int" where
  "bitlen n = (if n \<le> 0 then 0 else 1 + bitlen (n div 2))"
  by pat_completeness auto
termination
  by (relation "measure nat") auto

declare bitlen.simps [simp del]

text \<open>\<open>ilog2 n d\<close> is the integer \<open>e\<close> with \<open>2 ^ e \<le> n / d < 2 ^ (e + 1)\<close>, for positive \<open>n\<close>, \<open>d\<close>.\<close>

definition ilog2 :: "int \<Rightarrow> int \<Rightarrow> int" where
  "ilog2 n d =
     (let e0 = bitlen n - bitlen d
      in if (if 0 \<le> e0 then d * 2 ^ nat e0 \<le> n else d \<le> n * 2 ^ nat (- e0))
         then e0 else e0 - 1)"

text \<open>The integer nearest to \<open>n / d\<close>, ties to the even one.\<close>

definition rne :: "int \<Rightarrow> int \<Rightarrow> int" where
  "rne n d =
     (let q = n div d; r = n mod d
      in if 2 * r < d then q
         else if d < 2 * r then q + 1
         else if even q then q else q + 1)"

text \<open>
  Rounding the non-negative rational \<open>n / d\<close> to the magnitude bits of the nearest float:
  the exponent \<open>E\<close> (at least that of the subnormals), the fraction rounded to 24 bits,
  a carry out of the fraction moving into the exponent field, overflow giving infinity.
\<close>

definition f32_round_mag :: "int \<Rightarrow> int \<Rightarrow> int" where
  "f32_round_mag n d =
     (if n = 0 then 0
      else let E = max (ilog2 n d) (- 126);
               m = rne (n * 2 ^ nat (23 - E)) (d * 2 ^ nat (E - 23))
           in min ((E + 126) * 2 ^ 23 + m) 2139095040)"

definition f32_pack :: "bool \<Rightarrow> int \<Rightarrow> f32" where
  "f32_pack s m = word_of_int (if s then 2 ^ 31 + m else m)"

definition f32_round :: "bool \<Rightarrow> int \<Rightarrow> int \<Rightarrow> f32" where
  "f32_round s n d = f32_pack s (f32_round_mag n d)"

text \<open>The NaN an invalid operation produces (its payload is never inspected by the firmware).\<close>

definition f32_qnan :: f32 where
  "f32_qnan = 0x7FC00000"

definition f32_add :: "f32 \<Rightarrow> f32 \<Rightarrow> f32" where
  "f32_add a b =
     (if f32_isnan a \<or> f32_isnan b then f32_qnan
      else if f32_isinf a then (if f32_isinf b \<and> f32_neg a \<noteq> f32_neg b then f32_qnan else a)
      else if f32_isinf b then b
      else let s = f32_scaled a + f32_scaled b
           in if s = 0 then f32_pack (f32_neg a \<and> f32_neg b) 0
              else f32_round (s < 0) \<bar>s\<bar> (2 ^ 149))"

definition f32_uminus :: "f32 \<Rightarrow> f32" where
  "f32_uminus a = a XOR 0x80000000"

definition f32_sub :: "f32 \<Rightarrow> f32 \<Rightarrow> f32" where
  "f32_sub a b = f32_add a (f32_uminus b)"

definition f32_mul :: "f32 \<Rightarrow> f32 \<Rightarrow> f32" where
  "f32_mul a b =
     (if f32_isnan a \<or> f32_isnan b then f32_qnan
      else if (f32_isinf a \<and> f32_iszero b) \<or> (f32_iszero a \<and> f32_isinf b) then f32_qnan
      else if f32_isinf a \<or> f32_isinf b then f32_pack (f32_neg a \<noteq> f32_neg b) 2139095040
      else f32_round (f32_neg a \<noteq> f32_neg b) (f32_scaled_mag a * f32_scaled_mag b) (2 ^ 298))"

definition f32_div :: "f32 \<Rightarrow> f32 \<Rightarrow> f32" where
  "f32_div a b =
     (if f32_isnan a \<or> f32_isnan b then f32_qnan
      else if (f32_isinf a \<and> f32_isinf b) \<or> (f32_iszero a \<and> f32_iszero b) then f32_qnan
      else if f32_isinf a \<or> f32_iszero b then f32_pack (f32_neg a \<noteq> f32_neg b) 2139095040
      else if f32_isinf b then f32_pack (f32_neg a \<noteq> f32_neg b) 0
      else f32_round (f32_neg a \<noteq> f32_neg b) (f32_scaled_mag a) (f32_scaled_mag b))"

text \<open>Conversion of an integer to float, and a decimal literal \<open>n / d\<close> written in the source.\<close>

definition f32_of_int :: "int \<Rightarrow> f32" where
  "f32_of_int i = f32_round (i < 0) \<bar>i\<bar> 1"

definition f32_lit :: "int \<Rightarrow> int \<Rightarrow> f32" where
  "f32_lit n d = f32_round False n d"

text \<open>The integer nearest to a finite float, halfway cases away from zero (C's \<open>round\<close>).\<close>

definition f32_nearest_int :: "f32 \<Rightarrow> int" where
  "f32_nearest_int x =
     (let k = (2 * f32_scaled_mag x + 2 ^ 149) div 2 ^ 150
      in if f32_neg x then - k else k)"

section \<open>Configuration constants\<close>

definition MAX_CELLS :: int where
  "MAX_CELLS = 32"

definition DEFAULT_CELLS :: int where
  "DEFAULT_CELLS = 8"

definition CAN_SET_ID :: u32 where
  "CAN_SET_ID = 0x01"

definition CAN_SET_FRAME_TYPE :: u8 where
  "CAN_SET_FRAME_TYPE = 0x30"

definition EEPROM_MAGIC :: u8 where
  "EEPROM_MAGIC = 0xA5"

definition EEPROM_ADDR_COUNT :: nat where
  "EEPROM_ADDR_COUNT = 1"

definition EEPROM_ADDR_CURRENT :: nat where
  "EEPROM_ADDR_CURRENT = 2"

section \<open>Runtime state\<close>

text \<open>
  The globals of the sketch. \<open>cells\<close> is the array \<open>float cells[MAX_CELLS]\<close>, read and
  written at indices below \<open>MAX_CELLS\<close> only; \<open>nextCellIndexPerSlave\<close> is the
  256-entry \<open>int\<close> table, indexed by the slave byte; \<open>eeprom\<close> is the byte region behind
  the EEPROM object; \<open>canSent\<close> lists the frames handed to the transceiver, oldest first.
\<close>

record state =
  canPresent :: bool
  activeCellCount :: int
  cells :: "nat \<Rightarrow> f32"
  temperatureC :: f32
  balanceCurrentA :: f32
  packVoltageV :: f32
  currentSettingA :: f32
  nextCellIndexPerSlave :: "u8 \<Rightarrow> int"
  eeprom :: "nat \<Rightarrow> u8"
  canSent :: "(u32 \<times> u8 list) list"

definition clampf4 :: "f32 \<Rightarrow> f32 \<Rightarrow> f32 \<Rightarrow> f32" where
  "clampf4 v lo hi = (if f32_lt v lo then lo else if f32_lt hi v then hi else v)"

section \<open>Simulation\<close>

definition initSimData :: "state \<Rightarrow> state" where
  "initSimData st =
     st\<lparr>cells :=
          fold (\<lambda>i cs. cs(i := f32_add (f32_lit 390 100)
                                   (f32_mul (f32_lit 6 100) (f32_of_int (int i mod 3)))))
            [0..<nat MAX_CELLS] (cells st),
        temperatureC := f32_lit 29 1,
        balanceCurrentA := f32_lit 0 1,
        packVoltageV := f32_lit 0 1,
        currentSettingA := f32_lit 0 1,
        nextCellIndexPerSlave :=
          fold (\<lambda>i t. t(word_of_nat i := 0)) [0..<256] (nextCellIndexPerSlave st)\<rparr>"

text \<open>
  \<open>random(lo, hi)\<close> belongs to the Arduino core, not to the repository, so the tick takes
  the results of its calls as the parameter \<open>rnd\<close>: \<open>rnd i\<close> is the draw for cell
  \<open>i\<close>, and \<open>rnd (nat activeCellCount)\<close> the draw for the temperature.
\<close>

definition tickSimData :: "(nat \<Rightarrow> int) \<Rightarrow> state \<Rightarrow> state" where
  "tickSimData rnd st =
     st\<lparr>cells :=
          fold (\<lambda>i cs. cs(i := clampf4 (f32_add (cs i) (f32_mul (f32_of_int (rnd i)) (f32_lit 1 1000)))
                                   (f32_lit 360 100) (f32_lit 420 100)))
            [0..<nat (activeCellCount st)] (cells st),
        temperatureC :=
          clampf4 (f32_add (temperatureC st)
                     (f32_mul (f32_of_int (rnd (nat (activeCellCount st)))) (f32_lit 5 100)))
            (f32_lit 20 1) (f32_lit 55 1)\<rparr>"

section \<open>Frame decoding\<close>

text \<open>
  A received frame is its payload bytes; \<open>len\<close> of the source is the length of the list.
  The source reads \<open>buf[i]\<close> only behind a check that \<open>i < len\<close>, and so does the model.
\<close>

definition le16 :: "u8 \<Rightarrow> u8 \<Rightarrow> u16" where
  "le16 lo hi = ucast lo OR push_bit 8 (ucast hi)"

text \<open>The \<open>for (k = 0; k < 3; ++k)\<close> loop of a type-0x00 frame, with its \<open>break\<close>.\<close>

function decodeCells :: "u8 list \<Rightarrow> int \<Rightarrow> nat \<Rightarrow> int \<Rightarrow> (nat \<Rightarrow> f32) \<Rightarrow> int \<times> (nat \<Rightarrow> f32)" where
  "decodeCells buf n k idx cs =
     (if k < 3 then
        (let b = 2 + k * 2
         in if length buf \<le> b + 1 then (idx, cs)
            else
              (let raw = le16 (buf ! b) (buf ! (b + 1));
                   v = f32_div (f32_of_int (uint raw)) (f32_lit 1000 1);
                   cs' = (if 0 \<le> idx \<and> idx < n then cs(nat idx := v) else cs);
                   idx' = (if n \<le> idx + 1 then 0 else idx + 1)
               in decodeCells buf n (k + 1) idx' cs'))
      else (idx, cs))"
  by pat_completeness auto
termination
  by (relation "measure (\<lambda>(buf, n, k, idx, cs). 3 - k)") auto

declare decodeCells.simps [simp del]

text \<open>The body of the \<open>while\<close> loop of \<open>drainCanMessages\<close>: one received frame.\<close>

definition decodeFrame :: "u8 list \<Rightarrow> state \<Rightarrow> state" where
  "decodeFrame buf st =
     (if length buf < 2 then st
      else
        (let slave = buf ! 0; frameType = buf ! 1
         in if frameType = 0x00 then
              (let idx0 = nextCellIndexPerSlave st slave;
                   idx = (if idx0 < 0 \<or> activeCellCount st \<le> idx0 then 0 else idx0);
                   r = decodeCells buf (activeCellCount st) 0 idx (cells st)
               in st\<lparr>cells := snd r,
                     nextCellIndexPerSlave := (nextCellIndexPerSlave st)(slave := fst r)\<rparr>)
            else if frameType = 0x08 then
              (if 4 \<le> length buf
               then st\<lparr>balanceCurrentA :=
                         f32_div (f32_of_int (uint (le16 (buf ! 2) (buf ! 3)))) (f32_lit 1000 1)\<rparr>
               else st)
            else if frameType = 0x09 then
              (if 4 \<le> length buf
               then st\<lparr>packVoltageV :=
                         f32_mul (f32_of_int (uint (le16 (buf ! 2) (buf ! 3)))) (f32_lit 1 100)\<rparr>
               else st)
            else if frameType = 0x0A then
              (if 3 \<le> length buf
               then st\<lparr>temperatureC := f32_of_int (uint (buf ! 2))\<rparr>
               else st)
            else st))"


section \<open>Statistics and the snapshot endpoint\<close>

text \<open>
  \<open>computeStats\<close> returns \<open>(total, avg, vmin, vmax)\<close>; the loop state is
  \<open>(total, vmin, vmax)\<close> (\<open>total\<close> is written \<open>total_v\<close>).
\<close>

definition computeStats :: "state \<Rightarrow> f32 \<times> f32 \<times> f32 \<times> f32" where
  "computeStats st =
     (let r = fold (\<lambda>i (total_v, vmin, vmax).
                      (f32_add total_v (cells st i),
                       if f32_lt (cells st i) vmin then cells st i else vmin,
                       if f32_lt vmax (cells st i) then cells st i else vmax))
                [0..<nat (activeCellCount st)]
                (f32_lit 0 1, f32_lit 100 1, f32_lit 0 1);
          total_v = fst r;
          avg = (if 0 < activeCellCount st then f32_div total_v (f32_of_int (activeCellCount st))
                 else f32_lit 0 1)
      in (total_v, avg, fst (snd r), snd (snd r)))"

text \<open>
  The values \<open>handleData\<close> puts into the JSON object, before \<open>String(x, digits)\<close>
  renders each of them as decimal text (the rendering belongs to the Arduino core).
\<close>

record snapshot =
  j_cells :: "f32 list"
  j_total :: f32
  j_avg :: f32
  j_min :: f32
  j_max :: f32
  j_diff :: f32
  j_temp :: f32
  j_count :: int
  j_current :: f32
  j_can :: bool

definition handleData :: "state \<Rightarrow> snapshot" where
  "handleData st =
     (case computeStats st of (total_v, avg, vmin, vmax) \<Rightarrow>
        \<lparr>j_cells = map (cells st) [0..<nat (activeCellCount st)],
         j_total = (if f32_lt (f32_lit 1 100) (packVoltageV st) then packVoltageV st else total_v),
         j_avg = avg, j_min = vmin, j_max = vmax,
         j_diff = f32_sub vmax vmin,
         j_temp = temperatureC st,
         j_count = activeCellCount st,
         j_current = currentSettingA st,
         j_can = canPresent st\<rparr>)"

section \<open>Persistent configuration\<close>

text \<open>
  Modelled from the spec: the EEPROM object belongs to the platform, not to the repository.
  \<open>read\<close> and \<open>write\<close> access one byte of the region, \<open>put\<close> and \<open>get\<close> copy the
  four bytes of a float to and from consecutive addresses (the platform is little-endian,
  so the low byte comes first); every group of writes in the source ends with
  \<open>commit\<close>, so the region is one array of bytes. All addresses used (0 to 5) lie inside
  the 64-byte region.
\<close>

definition eeprom_put_f32 :: "nat \<Rightarrow> f32 \<Rightarrow> (nat \<Rightarrow> u8) \<Rightarrow> (nat \<Rightarrow> u8)" where
  "eeprom_put_f32 a x e =
     e(a := ucast x, a + 1 := ucast (drop_bit 8 x),
       a + 2 := ucast (drop_bit 16 x), a + 3 := ucast (drop_bit 24 x))"

definition eeprom_get_f32 :: "(nat \<Rightarrow> u8) \<Rightarrow> nat \<Rightarrow> f32" where
  "eeprom_get_f32 e a =
     ucast (e a) OR push_bit 8 (ucast (e (a + 1))) OR
     push_bit 16 (ucast (e (a + 2))) OR push_bit 24 (ucast (e (a + 3)))"

definition loadPrefs :: "state \<Rightarrow> state" where
  "loadPrefs st =
     (if eeprom st 0 = EEPROM_MAGIC then
        (let c = eeprom st EEPROM_ADDR_COUNT;
             st1 = (if 1 \<le> uint c \<and> uint c \<le> MAX_CELLS then st\<lparr>activeCellCount := uint c\<rparr> else st);
             st2 = st1\<lparr>currentSettingA := eeprom_get_f32 (eeprom st1) EEPROM_ADDR_CURRENT\<rparr>
         in if f32_isnan (currentSettingA st2) \<or> f32_lt (currentSettingA st2) (f32_of_int 0)
            then st2\<lparr>currentSettingA := f32_lit 0 1\<rparr> else st2)
      else
        st\<lparr>eeprom :=
             eeprom_put_f32 EEPROM_ADDR_CURRENT (currentSettingA st)
               ((eeprom st)(0 := EEPROM_MAGIC,
                            EEPROM_ADDR_COUNT := word_of_int (activeCellCount st)))\<rparr>)"

section \<open>Request handlers\<close>

text \<open>
  A handler takes the query argument it looks for: \<open>None\<close> when the request has no such
  argument, otherwise the number \<open>toInt\<close> or \<open>toFloat\<close> made of it. Both handlers end
  by answering 200 \<open>OK\<close>, whatever the argument was.
\<close>

definition handleSetCells :: "int option \<Rightarrow> state \<Rightarrow> state" where
  "handleSetCells arg st =
     (case arg of
        None \<Rightarrow> st
      | Some c0 \<Rightarrow>
          (let c1 = (if c0 < 1 then 1 else c0);
               c = (if MAX_CELLS < c1 then MAX_CELLS else c1);
               st1 = st\<lparr>activeCellCount := c\<rparr>;
               st2 = st1\<lparr>nextCellIndexPerSlave :=
                          fold (\<lambda>i t. t(word_of_nat i := 0)) [0..<256] (nextCellIndexPerSlave st1)\<rparr>;
               st3 = st2\<lparr>cells :=
                          fold (\<lambda>i cs. cs(i := f32_lit 0 1))
                            [nat (activeCellCount st2)..<nat MAX_CELLS] (cells st2)\<rparr>
           in st3\<lparr>eeprom :=
                     (eeprom st3)(0 := EEPROM_MAGIC,
                                  EEPROM_ADDR_COUNT := word_of_int (activeCellCount st3))\<rparr>))"

text \<open>
  Modelled from the spec: \<open>round\<close> is declared by the platform headers, not by the
  repository (the C library's function, or the Arduino macro that adds or subtracts 0.5 and
  converts to \<open>long\<close>); the spec says the value is converted by rounding. Both give the
  nearest integer, halves away from zero, and they agree with each other and with the
  conversion to \<open>uint32_t\<close> when that integer is at least 0 and below \<open>2 ^ 31\<close>. For NaN,
  an infinity and any other integer the conversion is undefined in C++ or differs between
  the two, and the model has no result: \<open>None\<close>.
\<close>

definition round_to_u32 :: "f32 \<Rightarrow> u32 option" where
  "round_to_u32 x =
     (if f32_isnan x \<or> f32_isinf x then None
      else if 0 \<le> f32_nearest_int x \<and> f32_nearest_int x < 2 ^ 31
           then Some (word_of_int (f32_nearest_int x)) else None)"

definition formatCurrentPayload :: "f32 \<Rightarrow> u8 list option" where
  "formatCurrentPayload currentA =
     (let out = fold (\<lambda>i b. b[i := 0]) [0..<8] (replicate 8 0);
          out = out[0 := 0x01];
          out = out[1 := CAN_SET_FRAME_TYPE]
      in case round_to_u32 (f32_mul currentA (f32_lit 1000 1)) of
           None \<Rightarrow> None
         | Some mA0 \<Rightarrow>
             (let mA = (if 0xFFFF < mA0 then 0xFFFF else mA0);
                  out = out[2 := ucast (mA AND 0xFF)];
                  out = out[3 := ucast (drop_bit 8 mA AND 0xFF)]
              in Some out))"

text \<open>
  The result of \<open>sendMsgBuf\<close> only selects the line printed on the serial port, so the
  model records the frame handed to the transceiver and nothing else.
\<close>

definition sendCurrentToBMS :: "f32 \<Rightarrow> state \<Rightarrow> state option" where
  "sendCurrentToBMS currentA st =
     (if \<not> canPresent st then Some st
      else case formatCurrentPayload currentA of
             None \<Rightarrow> None
           | Some buf \<Rightarrow> Some (st\<lparr>canSent := canSent st @ [(CAN_SET_ID, buf)]\<rparr>))"

definition handleSetCurrent :: "f32 option \<Rightarrow> state \<Rightarrow> state option" where
  "handleSetCurrent arg st =
     (case arg of
        None \<Rightarrow> Some st
      | Some v0 \<Rightarrow>
          (let v = (if f32_isnan v0 then f32_lit 0 1 else v0);
               st1 = st\<lparr>currentSettingA := v\<rparr>;
               st2 = st1\<lparr>eeprom :=
                          eeprom_put_f32 EEPROM_ADDR_CURRENT (currentSettingA st1)
                            ((eeprom st1)(0 := EEPROM_MAGIC))\<rparr>
           in sendCurrentToBMS (currentSettingA st2) st2))"

section \<open>Start-up and the reachable states\<close>

text \<open>
  The globals as their initialisers leave them, over a storage region \<open>e\<close> with any
  contents; then the part of \<open>setup\<close> that touches them: \<open>initSimData\<close>,
  \<open>loadPrefs\<close>, the result \<open>probe\<close> of the transceiver's initialisation, and the
  stored setpoint sent once when a transceiver is there.
\<close>

definition power_on :: "(nat \<Rightarrow> u8) \<Rightarrow> state" where
  "power_on e =
     \<lparr>canPresent = False, activeCellCount = DEFAULT_CELLS, cells = (\<lambda>i. 0),
      temperatureC = f32_lit 29 1, balanceCurrentA = f32_lit 0 1, packVoltageV = f32_lit 0 1,
      currentSettingA = f32_lit 0 1, nextCellIndexPerSlave = (\<lambda>s. 0), eeprom = e,
      canSent = []\<rparr>"






section \<open>Notions used to state the properties\<close>

text \<open>
  The \<open>k\<close>-th reading of a cell-voltage frame as the source computes it: the 16-bit
  little-endian word at bytes \<open>2 + 2k\<close> and \<open>3 + 2k\<close>, as a float, divided by
  \<open>1000.0f\<close>.
\<close>

definition reading :: "u8 list \<Rightarrow> nat \<Rightarrow> f32" where
  "reading buf k =
     f32_div (f32_of_int (uint (le16 (buf ! (2 + 2 * k)) (buf ! (3 + 2 * k))))) (f32_lit 1000 1)"

text \<open>A state with four active cells and every cursor at the last of them.\<close>

definition four_cells :: state where
  "four_cells = (power_on (\<lambda>a. 0))\<lparr>activeCellCount := 4, nextCellIndexPerSlave := (\<lambda>s. 3)\<rparr>"



text \<open>The state after start-up over a zeroed storage region, no transceiver found.\<close>

definition booted :: state where
  "booted = (loadPrefs (initSimData (power_on (\<lambda>a. 0))))\<lparr>canPresent := False\<rparr>"

text \<open>
  A storage region holding the magic byte, the count 12 and the bytes of \<open>+infinity\<close>
  as the setpoint; and a state that holds the count 12 and the setpoint 42.5 in memory over
  a zeroed region.
\<close>

definition region_inf :: "nat \<Rightarrow> u8" where
  "region_inf = (\<lambda>a. 0)(0 := 0xA5, 1 := 12, 2 := 0x00, 3 := 0x00, 4 := 0x80, 5 := 0x7F)"

definition saved_12 :: state where
  "saved_12 = (power_on (\<lambda>a. 0))\<lparr>activeCellCount := 12, currentSettingA := f32_lit 425 10\<rparr>"


definition nan_state :: state where
  "nan_state = four_cells\<lparr>cells := (cells four_cells)(0 := f32_qnan)\<rparr>"

section \<open>Frames that leave the state alone\<close>

text \<open>
  C9: a frame shorter than 2 bytes, and a frame of at least 2 bytes whose type byte is none
  of 0x00, 0x08, 0x09, 0x0A, leaves the whole state (cell voltages, temperature, pack
  voltage, balance current, setpoint, cell count, cursor table) as it was.
\<close>

theorem decodeFrame_ignores:
  "length buf < 2 \<or> (buf ! 1 \<noteq> 0x00 \<and> buf ! 1 \<noteq> 0x08 \<and> buf ! 1 \<noteq> 0x09 \<and> buf ! 1 \<noteq> 0x0A)
   \<Longrightarrow> decodeFrame buf st = st"
  by (auto simp: decodeFrame_def Let_def)

theorem decodeFrame_ignores_witness:
  "decodeFrame [0x01] (power_on (\<lambda>a. 0)) = power_on (\<lambda>a. 0) \<and>
   decodeFrame [0x01, 0x55, 0x10, 0x0E] (power_on (\<lambda>a. 0)) = power_on (\<lambda>a. 0)"
  using decodeFrame_ignores [of "[0x01]" "power_on (\<lambda>a. 0)"]
    decodeFrame_ignores [of "[0x01, 0x55, 0x10, 0x0E]" "power_on (\<lambda>a. 0)"]
  by simp

section \<open>Cell-voltage frames\<close>

lemma wrap_mod: 
  assumes "0 \<le> i" "i < n" 
  shows "(if n \<le> i + 1 then 0 else i + 1) = (i + 1) mod (n::int)"
proof (cases "n \<le> i + 1")
  case True
  with assms have "i + 1 = n" by simp
  then show ?thesis by simp
next
  case False
  with assms show ?thesis by simp
qed

lemma decodeCells_stop:
  "3 \<le> k \<or> length buf \<le> 2 * k + 3 \<Longrightarrow> decodeCells buf n k idx cs = (idx, cs)"
  by (subst decodeCells.simps) (auto simp: Let_def)

lemma decodeCells_step:
  assumes "k < 3" "2 * k + 3 < length buf" "0 \<le> idx" "idx < n"
  shows "decodeCells buf n k idx cs =
         decodeCells buf n (Suc k) ((idx + 1) mod n) (cs(nat idx := reading buf k))"
  using assms wrap_mod [of idx n]
  by (subst decodeCells.simps) (simp add: Let_def reading_def add.commute mult.commute eval_nat_numeral)

lemma decodeCells_run:
  assumes n: "1 \<le> n" and i: "0 \<le> idx" "idx < n"
  shows "decodeCells buf n 0 idx cs =
     ((idx + int (min 3 ((length buf - 2) div 2))) mod n,
      fold (\<lambda>k cs. cs(nat ((idx + int k) mod n) := reading buf k))
        [0..<min 3 ((length buf - 2) div 2)] cs)"
proof -
  have m: "\<And>x. 0 \<le> x mod n \<and> x mod n < n" using n by simp
  consider "length buf \<le> 3" | "4 \<le> length buf" "length buf \<le> 5"
    | "6 \<le> length buf" "length buf \<le> 7" | "8 \<le> length buf"
    by linarith
  then show ?thesis
  proof cases
    case 1
    then have r: "min 3 ((length buf - 2) div 2) = 0" by simp
    show ?thesis using 1 i unfolding r by (simp add: decodeCells_stop)
  next
    case 2
    then have r: "min 3 ((length buf - 2) div 2) = 1" by (simp add: min_def; linarith)
    show ?thesis using 2 i m unfolding r
      by (simp add: decodeCells_step decodeCells_stop)
  next
    case 3
    then have r: "min 3 ((length buf - 2) div 2) = 2" by (simp add: min_def; linarith)
    show ?thesis using 3 i m unfolding r
      by (simp add: decodeCells_step decodeCells_stop upt_rec mod_simps add.commute)
  next
    case 4
    then have r: "min 3 ((length buf - 2) div 2) = 3" by (simp add: min_def; linarith)
    show ?thesis using 4 i m unfolding r
      by (simp add: decodeCells_step decodeCells_stop upt_rec mod_simps add.commute)
  qed
qed

text \<open>
  C1: a type-0x00 frame of length 8 for slave \<open>buf ! 0\<close>, received while the cell count
  \<open>n\<close> and the slave's cursor \<open>c\<close> are within their bounds, writes its three readings
  (each the little-endian 16-bit word at bytes 2-3, 4-5, 6-7, divided by 1000.0) at \<open>c\<close>,
  \<open>(c + 1) mod n\<close> and \<open>(c + 2) mod n\<close>, in this order, and leaves the cursor at
  \<open>(c + 3) mod n\<close>. A frame of any length of at least 2 decodes the readings whose two
  bytes are both present, \<open>min 3 ((len - 2) div 2)\<close> of them, keeps them, and stops at the
  first incomplete one.
\<close>

theorem decode_cell_burst:
  assumes "2 \<le> length buf" and "buf ! 1 = 0x00"
    and "1 \<le> activeCellCount st" and "activeCellCount st \<le> MAX_CELLS"
    and "0 \<le> nextCellIndexPerSlave st (buf ! 0)"
    and "nextCellIndexPerSlave st (buf ! 0) < activeCellCount st"
  shows "(length buf = 8 \<longrightarrow>
            decodeFrame buf st =
              st\<lparr>cells := (cells st)
                     (nat (nextCellIndexPerSlave st (buf ! 0)) := reading buf 0,
                      nat ((nextCellIndexPerSlave st (buf ! 0) + 1) mod activeCellCount st) := reading buf 1,
                      nat ((nextCellIndexPerSlave st (buf ! 0) + 2) mod activeCellCount st) := reading buf 2),
                  nextCellIndexPerSlave := (nextCellIndexPerSlave st)
                     (buf ! 0 := (nextCellIndexPerSlave st (buf ! 0) + 3) mod activeCellCount st)\<rparr>) \<and>
         decodeFrame buf st =
           st\<lparr>cells :=
                 fold (\<lambda>k cs. cs(nat ((nextCellIndexPerSlave st (buf ! 0) + int k) mod activeCellCount st)
                                    := reading buf k))
                   [0..<min 3 ((length buf - 2) div 2)] (cells st),
               nextCellIndexPerSlave := (nextCellIndexPerSlave st)
                 (buf ! 0 := (nextCellIndexPerSlave st (buf ! 0) + int (min 3 ((length buf - 2) div 2)))
                               mod activeCellCount st)\<rparr>"
proof -
  have run: "decodeCells buf (activeCellCount st) 0 (nextCellIndexPerSlave st (buf ! 0)) (cells st) =
     ((nextCellIndexPerSlave st (buf ! 0) + int (min 3 ((length buf - 2) div 2))) mod activeCellCount st,
      fold (\<lambda>k cs. cs(nat ((nextCellIndexPerSlave st (buf ! 0) + int k) mod activeCellCount st)
                         := reading buf k))
        [0..<min 3 ((length buf - 2) div 2)] (cells st))"
    using assms(3,5,6) by (rule decodeCells_run)
  have gen: "decodeFrame buf st =
           st\<lparr>cells :=
                 fold (\<lambda>k cs. cs(nat ((nextCellIndexPerSlave st (buf ! 0) + int k) mod activeCellCount st)
                                    := reading buf k))
                   [0..<min 3 ((length buf - 2) div 2)] (cells st),
               nextCellIndexPerSlave := (nextCellIndexPerSlave st)
                 (buf ! 0 := (nextCellIndexPerSlave st (buf ! 0) + int (min 3 ((length buf - 2) div 2)))
                               mod activeCellCount st)\<rparr>"
    using assms(1,2,5,6) by (simp add: decodeFrame_def Let_def run)
  have eight: "length buf = 8 \<Longrightarrow> min 3 ((length buf - 2) div 2) = 3" by simp
  show ?thesis
  proof (intro conjI impI)
    assume l: "length buf = 8"
    have m0: "nextCellIndexPerSlave st (buf ! 0) mod activeCellCount st = nextCellIndexPerSlave st (buf ! 0)"
      using assms(5,6) by simp
    show "decodeFrame buf st =
              st\<lparr>cells := (cells st)
                     (nat (nextCellIndexPerSlave st (buf ! 0)) := reading buf 0,
                      nat ((nextCellIndexPerSlave st (buf ! 0) + 1) mod activeCellCount st) := reading buf 1,
                      nat ((nextCellIndexPerSlave st (buf ! 0) + 2) mod activeCellCount st) := reading buf 2),
                  nextCellIndexPerSlave := (nextCellIndexPerSlave st)
                     (buf ! 0 := (nextCellIndexPerSlave st (buf ! 0) + 3) mod activeCellCount st)\<rparr>"
      unfolding gen eight [OF l] by (simp add: upt_rec m0 numeral_2_eq_2)
  next
    show "decodeFrame buf st =
           st\<lparr>cells :=
                 fold (\<lambda>k cs. cs(nat ((nextCellIndexPerSlave st (buf ! 0) + int k) mod activeCellCount st)
                                    := reading buf k))
                   [0..<min 3 ((length buf - 2) div 2)] (cells st),
               nextCellIndexPerSlave := (nextCellIndexPerSlave st)
                 (buf ! 0 := (nextCellIndexPerSlave st (buf ! 0) + int (min 3 ((length buf - 2) div 2)))
                               mod activeCellCount st)\<rparr>"
      by (rule gen)
  qed
qed

theorem decode_cell_burst_witness:
  "decodeFrame [0x01, 0x00, 0x74, 0x0E, 0xD8, 0x0E, 0x3C, 0x0F] four_cells =
     four_cells\<lparr>cells := (cells four_cells)(3 := 0x406CCCCD, 0 := 0x40733333, 1 := 0x4079999A),
                nextCellIndexPerSlave := (nextCellIndexPerSlave four_cells)(0x01 := 2)\<rparr> \<and>
   decodeFrame [0x01, 0x00, 0x74, 0x0E, 0xD8] four_cells =
     four_cells\<lparr>cells := (cells four_cells)(3 := 0x406CCCCD),
                nextCellIndexPerSlave := (nextCellIndexPerSlave four_cells)(0x01 := 0)\<rparr>"
proof -
  have r: "reading [0x01, 0x00, 0x74, 0x0E, 0xD8, 0x0E, 0x3C, 0x0F] 0 = 0x406CCCCD"
    "reading [0x01, 0x00, 0x74, 0x0E, 0xD8, 0x0E, 0x3C, 0x0F] 1 = 0x40733333"
    "reading [0x01, 0x00, 0x74, 0x0E, 0xD8, 0x0E, 0x3C, 0x0F] 2 = 0x4079999A"
    "reading [0x01, 0x00, 0x74, 0x0E, 0xD8] 0 = 0x406CCCCD"
    "reading [0x01, 0x00, 0x74, 0x0E, 0xD8, 0x0E, 0x3C, 0x0F] (Suc 0) = 0x40733333"
    "reading [0x01, 0x00, 0x74, 0x0E, 0xD8, 0x0E, 0x3C, 0x0F] (Suc (Suc 0)) = 0x4079999A"
    by code_simp+
  have s: "activeCellCount four_cells = 4" "nextCellIndexPerSlave four_cells = (\<lambda>s. 3)"
    by (simp_all add: four_cells_def)
  show ?thesis
    using decode_cell_burst [of "[0x01, 0x00, 0x74, 0x0E, 0xD8, 0x0E, 0x3C, 0x0F]" four_cells]
      decode_cell_burst [of "[0x01, 0x00, 0x74, 0x0E, 0xD8]" four_cells]
    by (simp add: r s MAX_CELLS_def)
qed

section \<open>Bounds of the cell count and of the cursors\<close>

lemma f32_lit_zero: "f32_lit 0 d = 0"
  by (simp add: f32_lit_def f32_round_def f32_round_mag_def f32_pack_def)

lemma fold_reset_at:
  "fold (\<lambda>i t. t(word_of_nat i := (0::int))) [0..<n] t (s::u8) =
     (if \<exists>i<n. word_of_nat i = s then 0 else t s)"
proof (induction n)
  case 0
  then show ?case by simp
next
  case (Suc n)
  show ?case
    using Suc.IH by (auto simp: less_Suc_eq)
qed

lemma fold_reset_all:
  "fold (\<lambda>i t. t(word_of_nat i := (0::int))) [0..<256] t = (\<lambda>s::u8. 0)"
proof
  fix s :: u8
  have "unat s < 256" using unsigned_less [of s, where ?'a = nat] by simp
  moreover have "word_of_nat (unat s) = s" by simp
  ultimately have "\<exists>i<256. word_of_nat i = s" by blast
  then show "fold (\<lambda>i t. t(word_of_nat i := (0::int))) [0..<256] t s = 0"
    by (simp add: fold_reset_at)
qed

lemma fold_fill_at:
  "fold (\<lambda>i cs. cs(i := z)) [a..<b] cs j = (if a \<le> j \<and> j < b then z else cs j)"
proof (induction b)
  case 0
  then show ?case by simp
next
  case (Suc b)
  then show ?case by (cases "a \<le> b") (auto simp: less_Suc_eq)
qed

lemma decodeCells_unfold:
  assumes "k < 3" "2 * k + 3 < length buf"
  shows "decodeCells buf n k idx cs =
         decodeCells buf n (Suc k) (if n \<le> idx + 1 then 0 else idx + 1)
           (if 0 \<le> idx \<and> idx < n then cs(nat idx := reading buf k) else cs)"
  using assms
  by (subst decodeCells.simps) (simp add: Let_def reading_def add.commute mult.commute eval_nat_numeral)

lemma decodeCells_outside:
  "\<not> (0 \<le> int j \<and> int j < n) \<Longrightarrow> snd (decodeCells buf n k idx cs) j = cs j"
proof (induction "3 - k" arbitrary: k idx cs)
  case 0
  then show ?case by (simp add: decodeCells_stop)
next
  case (Suc m)
  show ?case
  proof (cases "2 * k + 3 < length buf")
    case False
    then show ?thesis by (simp add: decodeCells_stop)
  next
    case True
    have k: "k < 3" using Suc.hyps(2) by simp
    have m: "m = 3 - Suc k" using Suc.hyps(2) by simp
    have "snd (decodeCells buf n (Suc k) (if n \<le> idx + 1 then 0 else idx + 1)
           (if 0 \<le> idx \<and> idx < n then cs(nat idx := reading buf k) else cs)) j =
          (if 0 \<le> idx \<and> idx < n then cs(nat idx := reading buf k) else cs) j"
      using Suc.hyps(1) [OF m Suc.prems] .
    also have "\<dots> = cs j"
      using Suc.prems by auto
    finally show ?thesis
      by (simp add: decodeCells_unfold [OF k True])
  qed
qed


lemma decodeFrame_cells_outside:
  "\<not> (0 \<le> int j \<and> int j < activeCellCount st) \<Longrightarrow> cells (decodeFrame buf st) j = cells st j"
  by (simp add: decodeFrame_def Let_def decodeCells_outside)

lemma eeprom_put_f32_low [simp]:
  "eeprom_put_f32 EEPROM_ADDR_CURRENT x e 0 = e 0"
  "eeprom_put_f32 EEPROM_ADDR_CURRENT x e EEPROM_ADDR_COUNT = e EEPROM_ADDR_COUNT"
  "eeprom_put_f32 EEPROM_ADDR_CURRENT x e (Suc 0) = e (Suc 0)"
  by (simp_all add: eeprom_put_f32_def EEPROM_ADDR_CURRENT_def EEPROM_ADDR_COUNT_def)














section \<open>Setting the cell count\<close>

text \<open>
  C3: for every integer \<open>c\<close>, the set-cell-count request sets the cell count to \<open>c\<close>
  clamped into [1,32], sets the cursor of every slave to 0 and zeroes every cell from the
  new count up to 31; a type-0x00 frame decoded next, for any slave, writes its readings
  at the indices 0, 1 mod n, 2 mod n, and the cells from the new count up still read 0.0.
\<close>

theorem set_cell_count:
  assumes "st' = handleSetCells (Some c) st"
  shows "activeCellCount st' = max 1 (min 32 c) \<and>
    (\<forall>s. nextCellIndexPerSlave st' s = 0) \<and>
    (\<forall>i. nat (activeCellCount st') \<le> i \<and> i < 32 \<longrightarrow> cells st' i = f32_lit 0 1) \<and>
    (2 \<le> length buf \<and> buf ! 1 = 0x00 \<longrightarrow>
       decodeFrame buf st' =
         st'\<lparr>cells :=
               fold (\<lambda>k cs. cs(nat (int k mod activeCellCount st') := reading buf k))
                 [0..<min 3 ((length buf - 2) div 2)] (cells st'),
             nextCellIndexPerSlave :=
               (\<lambda>s. 0)(buf ! 0 := int (min 3 ((length buf - 2) div 2)) mod activeCellCount st')\<rparr> \<and>
       (\<forall>i. nat (activeCellCount st') \<le> i \<and> i < 32 \<longrightarrow> cells (decodeFrame buf st') i = f32_lit 0 1))"
proof -
  have n: "activeCellCount st' = max 1 (min 32 c)"
    using assms by (simp add: handleSetCells_def Let_def MAX_CELLS_def max_def min_def)
  have cur: "nextCellIndexPerSlave st' = (\<lambda>s. 0)"
    using assms by (simp add: handleSetCells_def Let_def fold_reset_all)
  have z: "nat (activeCellCount st') \<le> i \<and> i < 32 \<longrightarrow> cells st' i = f32_lit 0 1" for i
    using assms by (simp add: handleSetCells_def Let_def fold_fill_at MAX_CELLS_def)
  have b: "1 \<le> activeCellCount st'" "activeCellCount st' \<le> MAX_CELLS"
    unfolding n by (simp_all add: MAX_CELLS_def)
  have d: "decodeFrame buf st' =
         st'\<lparr>cells :=
               fold (\<lambda>k cs. cs(nat (int k mod activeCellCount st') := reading buf k))
                 [0..<min 3 ((length buf - 2) div 2)] (cells st'),
             nextCellIndexPerSlave :=
               (\<lambda>s. 0)(buf ! 0 := int (min 3 ((length buf - 2) div 2)) mod activeCellCount st')\<rparr>"
    if "2 \<le> length buf" "buf ! 1 = 0x00"
    using that b by (simp add: decodeFrame_def Let_def cur decodeCells_run)
  have o: "nat (activeCellCount st') \<le> i \<and> i < 32 \<longrightarrow> cells (decodeFrame buf st') i = f32_lit 0 1" for i
    using z [of i] decodeFrame_cells_outside [of i st' buf] by auto
  have cur': "\<forall>s. nextCellIndexPerSlave st' s = 0" by (simp add: cur)
  show ?thesis using n cur' z d o by blast
qed

theorem set_cell_count_witness:
  "activeCellCount (handleSetCells (Some 40) four_cells) = 32 \<and>
   activeCellCount (handleSetCells (Some (- 5)) four_cells) = 1 \<and>
   activeCellCount (handleSetCells (Some 2) four_cells) = 2 \<and>
   nextCellIndexPerSlave (handleSetCells (Some 2) four_cells) 0x07 = 0 \<and>
   nextCellIndexPerSlave four_cells 0x07 = 3 \<and>
   cells (handleSetCells (Some 2) four_cells) 2 = 0 \<and>
   cells (decodeFrame [0x07, 0x00, 0x74, 0x0E, 0xD8] (handleSetCells (Some 2) four_cells)) 0 = 0x406CCCCD \<and>
   nextCellIndexPerSlave (decodeFrame [0x07, 0x00, 0x74, 0x0E, 0xD8] (handleSetCells (Some 2) four_cells)) 0x07 = 1 \<and>
   cells (decodeFrame [0x07, 0x00, 0x74, 0x0E, 0xD8] (handleSetCells (Some 2) four_cells)) 2 = 0"
proof -
  have r: "reading [0x07, 0x00, 0x74, 0x0E, 0xD8] 0 = 0x406CCCCD" by code_simp
  have s: "nextCellIndexPerSlave four_cells 0x07 = 3" by (simp add: four_cells_def)
  show ?thesis
    using set_cell_count [OF refl, of 40 four_cells "[0x07, 0x00, 0x74, 0x0E, 0xD8]"]
      set_cell_count [OF refl, of "- 5" four_cells "[0x07, 0x00, 0x74, 0x0E, 0xD8]"]
      set_cell_count [OF refl, of 2 four_cells "[0x07, 0x00, 0x74, 0x0E, 0xD8]"]
    by (simp add: r s f32_lit_zero)
qed

section \<open>The total of the snapshot\<close>

lemma fold_total:
  "fst (fold (\<lambda>i (total_v, vmin, vmax).
               (f32_add total_v (c i),
                if f32_lt (c i) vmin then c i else vmin,
                if f32_lt vmax (c i) then c i else vmax)) xs (t, a, b)) =
   foldl f32_add t (map c xs)"
  by (induction xs arbitrary: t a b) simp_all

text \<open>
  C10: the total that the snapshot endpoint reports is the pack voltage whenever the pack
  voltage is greater than \<open>0.01f\<close>, and otherwise the sum of the active cells, added up
  in index order from \<open>0.0f\<close>.
\<close>

theorem reported_total:
  "j_total (handleData st) =
     (if f32_lt (f32_lit 1 100) (packVoltageV st) then packVoltageV st
      else foldl f32_add (f32_lit 0 1) (map (cells st) [0..<nat (activeCellCount st)]))"
  by (simp add: handleData_def computeStats_def Let_def fold_total split: prod.splits)

section \<open>Persistent configuration: round trip and validation\<close>

lemma eeprom_get_put:
  "eeprom_get_f32 (eeprom_put_f32 a x e) a = x"
  unfolding eeprom_get_f32_def eeprom_put_f32_def
  apply (simp)
  apply (rule bit_word_eqI)
  apply (auto simp: bit_simps)
  subgoal for n by (cases "24 \<le> n") auto
  done

lemma lit_42_5: "f32_lit 425 10 = 0x422A0000"
  by code_simp

lemma payload_42_5: "formatCurrentPayload 0x422A0000 = Some [0x01, 0x30, 0x04, 0xA6, 0, 0, 0, 0]"
  by code_simp

lemma f32_of_int_zero: "f32_of_int 0 = 0"
  by (simp add: f32_of_int_def f32_round_def f32_round_mag_def f32_pack_def)

lemma f32_lt_zero_iff: "f32_lt x 0 \<longleftrightarrow> \<not> f32_isnan x \<and> f32_neg x \<and> \<not> f32_iszero x"
proof -
  have "0 \<le> f32_mag x" by (simp add: f32_mag_def)
  then show ?thesis
    by (auto simp: f32_lt_def f32_key_def f32_iszero_def f32_isnan_def f32_mag_def f32_neg_def)
qed

lemma loadPrefs_magic:
  assumes "eeprom st 0 = EEPROM_MAGIC"
  shows "loadPrefs st =
     st\<lparr>activeCellCount :=
          (if 1 \<le> uint (eeprom st EEPROM_ADDR_COUNT) \<and> uint (eeprom st EEPROM_ADDR_COUNT) \<le> 32
           then uint (eeprom st EEPROM_ADDR_COUNT) else activeCellCount st),
        currentSettingA :=
          (if f32_isnan (eeprom_get_f32 (eeprom st) EEPROM_ADDR_CURRENT) \<or>
              f32_lt (eeprom_get_f32 (eeprom st) EEPROM_ADDR_CURRENT) 0
           then 0 else eeprom_get_f32 (eeprom st) EEPROM_ADDR_CURRENT)\<rparr>"
  using assms
  by (simp add: loadPrefs_def Let_def MAX_CELLS_def f32_of_int_zero f32_lit_zero)

lemma loadPrefs_no_magic:
  assumes "eeprom st 0 \<noteq> EEPROM_MAGIC"
  shows "loadPrefs st =
     st\<lparr>eeprom := eeprom_put_f32 EEPROM_ADDR_CURRENT (currentSettingA st)
          ((eeprom st)(0 := EEPROM_MAGIC, EEPROM_ADDR_COUNT := word_of_int (activeCellCount st)))\<rparr>"
  using assms by (simp add: loadPrefs_def)

lemma eeprom_put_f32_other:
  "b < a \<or> a + 4 \<le> b \<Longrightarrow> eeprom_put_f32 a x e b = e b"
  by (auto simp: eeprom_put_f32_def)

lemma handleSetCurrent_eeprom:
  assumes "handleSetCurrent (Some v) st = Some st'" "\<not> f32_isnan v"
  shows "eeprom st' = eeprom_put_f32 EEPROM_ADDR_CURRENT v ((eeprom st)(0 := EEPROM_MAGIC))"
    and "currentSettingA st' = v"
  using assms
  by (auto simp: handleSetCurrent_def sendCurrentToBMS_def Let_def split: if_splits option.splits)

lemma handleSetCells_eeprom:
  "eeprom (handleSetCells (Some c) st) =
     (eeprom st)(0 := EEPROM_MAGIC,
                 EEPROM_ADDR_COUNT := word_of_int (activeCellCount (handleSetCells (Some c) st)))"
  by (simp add: handleSetCells_def Let_def)

lemma fits_42_5: "\<not> f32_isnan 0x422A0000" "\<not> f32_lt 0x422A0000 0"
  by (simp_all add: f32_isnan_def f32_lt_def f32_key_def f32_mag_def f32_neg_def)

lemma get_region_inf: "eeprom_get_f32 region_inf EEPROM_ADDR_CURRENT = 0x7F800000"
  by (simp add: eeprom_get_f32_def region_inf_def EEPROM_ADDR_CURRENT_def)

lemma class_inf: "f32_isinf 0x7F800000" "\<not> f32_neg 0x7F800000" "\<not> f32_isnan 0x7F800000"
  "\<not> f32_iszero 0x7F800000"
  by (simp_all add: f32_isinf_def f32_neg_def f32_isnan_def f32_iszero_def f32_mag_def)

text \<open>
  C4: once the set-cell-count request has stored 12 and the set-current request has stored
  42.5, loading from that region gives the count 12 and the setpoint 42.5, whatever the
  memory held before (magic byte at offset 0, count at offset 1, the float at offsets 2 to
  5). Loading from a region whose byte 0 is not the magic byte leaves memory as it is and
  writes the magic byte, the count and the setpoint that memory holds; when these are 12 and
  42.5, a later load from that region gives 12 and 42.5 again.
\<close>

theorem config_round_trip:
  "(\<exists>st1. handleSetCurrent (Some (f32_lit 425 10)) (handleSetCells (Some 12) st) = Some st1 \<and>
      (\<forall>st2. eeprom st2 = eeprom st1 \<longrightarrow>
         activeCellCount (loadPrefs st2) = 12 \<and> currentSettingA (loadPrefs st2) = f32_lit 425 10)) \<and>
   (eeprom st 0 \<noteq> EEPROM_MAGIC \<longrightarrow>
      loadPrefs st = st\<lparr>eeprom := eeprom (loadPrefs st)\<rparr> \<and>
      eeprom (loadPrefs st) 0 = EEPROM_MAGIC \<and>
      eeprom (loadPrefs st) EEPROM_ADDR_COUNT = word_of_int (activeCellCount st) \<and>
      eeprom_get_f32 (eeprom (loadPrefs st)) EEPROM_ADDR_CURRENT = currentSettingA st \<and>
      (\<forall>a. 6 \<le> a \<longrightarrow> eeprom (loadPrefs st) a = eeprom st a)) \<and>
   (eeprom st 0 \<noteq> EEPROM_MAGIC \<and> activeCellCount st = 12 \<and> currentSettingA st = f32_lit 425 10 \<longrightarrow>
      (\<forall>st2. eeprom st2 = eeprom (loadPrefs st) \<longrightarrow>
         activeCellCount (loadPrefs st2) = 12 \<and> currentSettingA (loadPrefs st2) = f32_lit 425 10))"
proof (intro conjI impI)
  let ?e = "eeprom_put_f32 EEPROM_ADDR_CURRENT 0x422A0000
              ((eeprom st)(0 := EEPROM_MAGIC, EEPROM_ADDR_COUNT := 12))"
  have load: "activeCellCount (loadPrefs st2) = 12 \<and> currentSettingA (loadPrefs st2) = f32_lit 425 10"
    if "eeprom st2 = ?e" for st2 :: state
  proof -
    have "eeprom st2 0 = EEPROM_MAGIC" "eeprom st2 EEPROM_ADDR_COUNT = 12"
      "eeprom_get_f32 (eeprom st2) EEPROM_ADDR_CURRENT = 0x422A0000"
      unfolding that
      by (simp_all add: eeprom_get_put eeprom_put_f32_other EEPROM_ADDR_COUNT_def EEPROM_ADDR_CURRENT_def)
    then show ?thesis
      by (simp add: loadPrefs_magic fits_42_5 lit_42_5)
  qed
  let ?st0 = "handleSetCells (Some 12) st"
  have n: "activeCellCount ?st0 = 12"
    by (simp add: handleSetCells_def Let_def MAX_CELLS_def)
  obtain st1 where st1: "handleSetCurrent (Some 0x422A0000) ?st0 = Some st1"
    by (cases "canPresent ?st0")
      (simp_all add: handleSetCurrent_def sendCurrentToBMS_def Let_def payload_42_5 fits_42_5)
  have "eeprom st1 = ?e"
    using handleSetCurrent_eeprom(1) [OF st1 fits_42_5(1)]
    by (simp add: handleSetCells_eeprom n fun_upd_twist EEPROM_ADDR_COUNT_def)
  then show "\<exists>st1. handleSetCurrent (Some (f32_lit 425 10)) ?st0 = Some st1 \<and>
      (\<forall>st2. eeprom st2 = eeprom st1 \<longrightarrow>
         activeCellCount (loadPrefs st2) = 12 \<and> currentSettingA (loadPrefs st2) = f32_lit 425 10)"
    using st1 load by (auto simp: lit_42_5)
next
  assume m: "eeprom st 0 \<noteq> EEPROM_MAGIC"
  show "loadPrefs st = st\<lparr>eeprom := eeprom (loadPrefs st)\<rparr>"
    "eeprom (loadPrefs st) 0 = EEPROM_MAGIC"
    "eeprom (loadPrefs st) EEPROM_ADDR_COUNT = word_of_int (activeCellCount st)"
    "eeprom_get_f32 (eeprom (loadPrefs st)) EEPROM_ADDR_CURRENT = currentSettingA st"
    "\<forall>a. 6 \<le> a \<longrightarrow> eeprom (loadPrefs st) a = eeprom st a"
    by (simp_all add: loadPrefs_no_magic [OF m] eeprom_get_put eeprom_put_f32_other
        EEPROM_ADDR_COUNT_def EEPROM_ADDR_CURRENT_def)
next
  assume a: "eeprom st 0 \<noteq> EEPROM_MAGIC \<and> activeCellCount st = 12 \<and> currentSettingA st = f32_lit 425 10"
  show "\<forall>st2. eeprom st2 = eeprom (loadPrefs st) \<longrightarrow>
         activeCellCount (loadPrefs st2) = 12 \<and> currentSettingA (loadPrefs st2) = f32_lit 425 10"
  proof (intro allI impI)
    fix st2 :: state assume e: "eeprom st2 = eeprom (loadPrefs st)"
    have "eeprom st2 0 = EEPROM_MAGIC" "eeprom st2 EEPROM_ADDR_COUNT = 12"
      "eeprom_get_f32 (eeprom st2) EEPROM_ADDR_CURRENT = 0x422A0000"
      using a unfolding e
      by (simp_all add: loadPrefs_no_magic eeprom_get_put eeprom_put_f32_other lit_42_5
          EEPROM_ADDR_COUNT_def EEPROM_ADDR_CURRENT_def)
    then show "activeCellCount (loadPrefs st2) = 12 \<and> currentSettingA (loadPrefs st2) = f32_lit 425 10"
      by (simp add: loadPrefs_magic fits_42_5 lit_42_5)
  qed
qed

theorem config_round_trip_witness:
  "(\<exists>st1. handleSetCurrent (Some (f32_lit 425 10)) (handleSetCells (Some 12) (power_on (\<lambda>a. 0))) = Some st1 \<and>
      activeCellCount (loadPrefs (power_on (eeprom st1))) = 12 \<and>
      currentSettingA (loadPrefs (power_on (eeprom st1))) = 0x422A0000) \<and>
   eeprom saved_12 0 \<noteq> EEPROM_MAGIC \<and>
   eeprom (loadPrefs saved_12) 0 = 0xA5 \<and>
   eeprom (loadPrefs saved_12) 1 = 12 \<and>
   eeprom_get_f32 (eeprom (loadPrefs saved_12)) 2 = 0x422A0000 \<and>
   activeCellCount (loadPrefs saved_12) = 12 \<and>
   activeCellCount (loadPrefs (power_on (eeprom (loadPrefs saved_12)))) = 12 \<and>
   currentSettingA (loadPrefs (power_on (eeprom (loadPrefs saved_12)))) = 0x422A0000"
proof -
  have s: "eeprom saved_12 0 \<noteq> EEPROM_MAGIC" "activeCellCount saved_12 = 12"
    "currentSettingA saved_12 = f32_lit 425 10"
    by (simp_all add: saved_12_def power_on_def EEPROM_MAGIC_def)
  have p: "eeprom (power_on e) = e" for e by (simp add: power_on_def)
  have l: "activeCellCount (loadPrefs saved_12) = 12"
    using s by (simp add: loadPrefs_no_magic)
  from config_round_trip [of "power_on (\<lambda>a. 0)"]
  obtain st1 where a:
    "handleSetCurrent (Some (f32_lit 425 10)) (handleSetCells (Some 12) (power_on (\<lambda>a. 0))) = Some st1"
    "\<forall>st2. eeprom st2 = eeprom st1 \<longrightarrow>
       activeCellCount (loadPrefs st2) = 12 \<and> currentSettingA (loadPrefs st2) = f32_lit 425 10"
    by blast
  have a': "activeCellCount (loadPrefs (power_on (eeprom st1))) = 12"
    "currentSettingA (loadPrefs (power_on (eeprom st1))) = 0x422A0000"
    using a(2) p [of "eeprom st1"] by (simp_all add: lit_42_5)
  have b: "eeprom (loadPrefs saved_12) 0 = 0xA5" "eeprom (loadPrefs saved_12) 1 = 12"
    "eeprom_get_f32 (eeprom (loadPrefs saved_12)) 2 = 0x422A0000"
    "activeCellCount (loadPrefs (power_on (eeprom (loadPrefs saved_12)))) = 12"
    "currentSettingA (loadPrefs (power_on (eeprom (loadPrefs saved_12)))) = 0x422A0000"
    using config_round_trip [of saved_12] s p [of "eeprom (loadPrefs saved_12)"]
    by (simp_all add: lit_42_5 EEPROM_MAGIC_def EEPROM_ADDR_COUNT_def EEPROM_ADDR_CURRENT_def)
  show ?thesis using a(1) a' b s(1) l by blast
qed

text \<open>
  C6, as the code has it: over a region with the magic byte, the stored count is taken when
  it is in [1,32] and the count in memory is kept otherwise; the stored setpoint is replaced
  by 0 when it is NaN or less than zero, and taken as it is in every other case, which
  includes \<open>+infinity\<close>.
\<close>

theorem load_validation:
  assumes "eeprom st 0 = EEPROM_MAGIC"
  shows "activeCellCount (loadPrefs st) =
           (if 1 \<le> uint (eeprom st EEPROM_ADDR_COUNT) \<and> uint (eeprom st EEPROM_ADDR_COUNT) \<le> 32
            then uint (eeprom st EEPROM_ADDR_COUNT) else activeCellCount st) \<and>
         currentSettingA (loadPrefs st) =
           (if f32_isnan (eeprom_get_f32 (eeprom st) EEPROM_ADDR_CURRENT) \<or>
               (f32_neg (eeprom_get_f32 (eeprom st) EEPROM_ADDR_CURRENT) \<and>
                \<not> f32_iszero (eeprom_get_f32 (eeprom st) EEPROM_ADDR_CURRENT))
            then f32_lit 0 1 else eeprom_get_f32 (eeprom st) EEPROM_ADDR_CURRENT)"
  by (auto simp: loadPrefs_magic [OF assms] f32_lt_zero_iff f32_lit_zero)

theorem load_validation_witness:
  "eeprom (power_on region_inf) 0 = EEPROM_MAGIC \<and>
   activeCellCount (power_on region_inf) = 8 \<and>
   activeCellCount (loadPrefs (power_on region_inf)) = 12 \<and>
   currentSettingA (loadPrefs (power_on region_inf)) = 0x7F800000"
proof -
  have e: "eeprom (power_on region_inf) = region_inf"
    and n: "activeCellCount (power_on region_inf) = 8"
    by (simp_all add: power_on_def DEFAULT_CELLS_def)
  have m: "region_inf 0 = EEPROM_MAGIC" "region_inf EEPROM_ADDR_COUNT = 12"
    by (simp_all add: region_inf_def EEPROM_MAGIC_def EEPROM_ADDR_COUNT_def)
  show ?thesis
    using load_validation [of "power_on region_inf"]
    by (simp add: e n m get_region_inf class_inf)
qed

text \<open>
  The claim as written asks for 0 when the stored setpoint is \<open>+infinity\<close>; the guard
  \<open>isnan(x) || x < 0\<close> lets it through.
\<close>

theorem load_keeps_infinity:
  "eeprom (power_on region_inf) 0 = EEPROM_MAGIC \<and>
   eeprom_get_f32 (eeprom (power_on region_inf)) EEPROM_ADDR_CURRENT = 0x7F800000 \<and>
   f32_isinf 0x7F800000 \<and> \<not> f32_neg 0x7F800000 \<and>
   currentSettingA (loadPrefs (power_on region_inf)) = 0x7F800000 \<and>
   currentSettingA (loadPrefs (power_on region_inf)) \<noteq> f32_lit 0 1"
proof -
  have e: "eeprom (power_on region_inf) = region_inf" by (simp add: power_on_def)
  have m: "region_inf 0 = EEPROM_MAGIC" by (simp add: region_inf_def EEPROM_MAGIC_def)
  have "\<not> f32_lt 0x7F800000 0"
    by (simp add: f32_lt_zero_iff class_inf)
  then show ?thesis
    by (simp add: loadPrefs_magic e m get_region_inf class_inf f32_lit_zero)
qed

section \<open>The set-current request and negative values\<close>

text \<open>
  C7: the request handler replaces NaN only. A negative value such as \<open>-5.0\<close> is stored
  in memory and in the region as it is, although a load of that region resets it to 0; with
  a transceiver present the value reaches the payload conversion, which has no result for
  it.
\<close>

theorem set_current_keeps_negative:
  "f32_of_int (- 5) = 0xC0A00000 \<and>
   f32_lt (f32_of_int (- 5)) (f32_lit 0 1) \<and>
   handleSetCurrent (Some (f32_of_int (- 5))) booted =
     Some (booted\<lparr>currentSettingA := 0xC0A00000,
                  eeprom := (eeprom booted)(0 := 0xA5, 2 := 0x00, 3 := 0x00, 4 := 0xA0, 5 := 0xC0)\<rparr>) \<and>
   currentSettingA (loadPrefs (power_on ((eeprom booted)(0 := 0xA5, 2 := 0x00, 3 := 0x00, 4 := 0xA0, 5 := 0xC0))))
     = f32_lit 0 1 \<and>
   handleSetCurrent (Some (f32_of_int (- 5))) (booted\<lparr>canPresent := True\<rparr>) = None"
proof -
  have v: "f32_of_int (- 5) = 0xC0A00000" by code_simp
  have c: "\<not> f32_isnan 0xC0A00000" "f32_neg 0xC0A00000" "\<not> f32_iszero 0xC0A00000"
    by (simp_all add: f32_isnan_def f32_neg_def f32_iszero_def f32_mag_def)
  have lt: "f32_lt 0xC0A00000 0" by (simp add: f32_lt_zero_iff c)
  have b: "(ucast (0xC0A00000 :: f32) :: u8) = 0x00" "(ucast (drop_bit 8 (0xC0A00000 :: f32)) :: u8) = 0x00"
    "(ucast (drop_bit 16 (0xC0A00000 :: f32)) :: u8) = 0xA0"
    "(ucast (drop_bit 24 (0xC0A00000 :: f32)) :: u8) = 0xC0"
    by code_simp+
  have put: "eeprom_put_f32 EEPROM_ADDR_CURRENT 0xC0A00000 e = e(2 := 0x00, 3 := 0x00, 4 := 0xA0, 5 := 0xC0)" for e
    unfolding eeprom_put_f32_def b by (simp add: EEPROM_ADDR_CURRENT_def)
  have np: "\<not> canPresent booted" by (simp add: booted_def)
  have h: "handleSetCurrent (Some 0xC0A00000) booted =
     Some (booted\<lparr>currentSettingA := 0xC0A00000,
                  eeprom := (eeprom booted)(0 := 0xA5, 2 := 0x00, 3 := 0x00, 4 := 0xA0, 5 := 0xC0)\<rparr>)"
    by (simp add: handleSetCurrent_def Let_def sendCurrentToBMS_def c np put EEPROM_MAGIC_def)
  have g: "eeprom_get_f32 ((eeprom booted)(0 := 0xA5, 2 := 0x00, 3 := 0x00, 4 := 0xA0, 5 := 0xC0)) EEPROM_ADDR_CURRENT = 0xC0A00000"
    by (simp add: eeprom_get_f32_def EEPROM_ADDR_CURRENT_def)
  have l: "currentSettingA (loadPrefs (power_on ((eeprom booted)(0 := 0xA5, 2 := 0x00, 3 := 0x00, 4 := 0xA0, 5 := 0xC0))))
     = f32_lit 0 1"
    by (simp add: loadPrefs_magic power_on_def EEPROM_MAGIC_def g lt f32_lit_zero)
  have f: "formatCurrentPayload 0xC0A00000 = None" by code_simp
  have n: "handleSetCurrent (Some 0xC0A00000) (booted\<lparr>canPresent := True\<rparr>) = None"
    by (simp add: handleSetCurrent_def Let_def sendCurrentToBMS_def c f)
  show ?thesis using h l n lt by (simp add: v f32_lit_zero)
qed

section \<open>Facts about the float operations\<close>









lemma fold_upd_at:
  "fold (\<lambda>i cs. cs(i := g i (cs i))) [0..<n] cs j = (if j < n then g j (cs j) else cs j)"
  by (induction n) auto

section \<open>The simulator tick\<close>






lemma tick_cells:
  "cells (tickSimData rnd st) i =
     (if i < nat (activeCellCount st)
      then clampf4 (f32_add (cells st i) (f32_mul (f32_of_int (rnd i)) (f32_lit 1 1000)))
             (f32_lit 360 100) (f32_lit 420 100)
      else cells st i)"
  by (simp add: tickSimData_def
      fold_upd_at [where g = "\<lambda>i v. clampf4 (f32_add v (f32_mul (f32_of_int (rnd i)) (f32_lit 1 1000)))
             (f32_lit 360 100) (f32_lit 420 100)"])
























text \<open>
  The hypothesis cannot be dropped for states that are not reachable: a cell that is NaN
  stays NaN, since both comparisons of \<open>clampf4\<close> are false on NaN, and NaN lies in no
  interval.
\<close>

theorem tick_keeps_nan:
  "int 0 < activeCellCount nan_state \<and>
   f32_isnan (cells nan_state 0) \<and>
   f32_isnan (cells (tickSimData (\<lambda>i. 0) nan_state) 0) \<and>
   \<not> (f32_le (f32_lit 360 100) (cells (tickSimData (\<lambda>i. 0) nan_state) 0) \<and>
      f32_le (cells (tickSimData (\<lambda>i. 0) nan_state) 0) (f32_lit 420 100))"
proof -
  have n: "activeCellCount nan_state = 4" and c: "cells nan_state 0 = f32_qnan"
    by (simp_all add: nan_state_def four_cells_def)
  have q: "f32_isnan f32_qnan"
    by (simp add: f32_isnan_def f32_mag_def f32_qnan_def)
  have a: "f32_add f32_qnan d = f32_qnan" for d
    by (simp add: f32_add_def q)
  have k: "clampf4 f32_qnan lo hi = f32_qnan" for lo hi
    by (simp add: clampf4_def f32_lt_def q)
  have "cells (tickSimData (\<lambda>i. 0) nan_state) 0 = f32_qnan"
    by (simp add: tick_cells n c a k)
  then show ?thesis
    using q by (simp add: n c f32_le_def)
qed

section \<open>Rounding to a float from below\<close>


lemma bitlen_nonneg: "0 \<le> bitlen n"
proof (induction n rule: bitlen.induct)
  case (1 n)
  then show ?case by (subst bitlen.simps) simp
qed











section \<open>The set-current payload\<close>















end
